theory Spec2Isabelle
  imports Main "HOL-Library.Word"
begin

unbundle bit_operations_syntax

section \<open>The xbstream writer (xbstream.h, xbstream_write.cc)\<close>

text \<open>
  A shallow embedding of the writer of the xbstream format. Buffers are byte lists and
  the \<open>size_t\<close> that travels with a buffer in the C code is the length of the list: a
  64-bit \<open>size_t\<close> holds the length of every buffer that fits in memory, so lengths are
  natural numbers, and the truncation to 32 or 64 bits is written out where the code stores
  a value into the chunk header (\<open>int4store\<close>, \<open>int8store\<close>) or adds to the 64-bit
  \<open>my_off_t\<close> offset of a file.
\<close>

subsection \<open>Constants and types of xbstream.h\<close>

type_synonym uchar = "8 word"

text \<open>\<open>#define XB_STREAM_CHUNK_MAGIC "XBSTCK01"\<close>, without the terminating NUL
  (the code copies \<open>sizeof(XB_STREAM_CHUNK_MAGIC) - 1\<close> bytes).\<close>

definition XB_STREAM_CHUNK_MAGIC :: "uchar list" where
  "XB_STREAM_CHUNK_MAGIC = map of_char ''XBSTCK01''"

definition XB_STREAM_FLAG_IGNORABLE :: uchar where
  "XB_STREAM_FLAG_IGNORABLE = 0x01"

definition CHUNK_HEADER_CONSTANT_LEN :: nat where
  "CHUNK_HEADER_CONSTANT_LEN = length XB_STREAM_CHUNK_MAGIC + 1 + 1 + 4"

definition CHUNK_TYPE_OFFSET :: nat where
  "CHUNK_TYPE_OFFSET = length XB_STREAM_CHUNK_MAGIC + 1"

definition PATH_LENGTH_OFFSET :: nat where
  "PATH_LENGTH_OFFSET = length XB_STREAM_CHUNK_MAGIC + 1 + 1"

datatype xb_chunk_type_t =
  XB_CHUNK_TYPE_UNKNOWN
| XB_CHUNK_TYPE_PAYLOAD
| XB_CHUNK_TYPE_SPARSE
| XB_CHUNK_TYPE_EOF

text \<open>The value of an enumerator cast to \<open>uchar\<close>: \<open>'\0'\<close>, \<open>'P'\<close>, \<open>'S'\<close>, \<open>'E'\<close>.\<close>

fun chunk_type_uchar :: "xb_chunk_type_t \<Rightarrow> uchar" where
  "chunk_type_uchar XB_CHUNK_TYPE_UNKNOWN = 0"
| "chunk_type_uchar XB_CHUNK_TYPE_PAYLOAD = of_char CHR ''P''"
| "chunk_type_uchar XB_CHUNK_TYPE_SPARSE = of_char CHR ''S''"
| "chunk_type_uchar XB_CHUNK_TYPE_EOF = of_char CHR ''E''"

text \<open>Modelled from the spec: \<open>ds_sparse_chunk_t\<close> is declared in datasink.h, which is
  not in the source tree; the spec gives the entry as the pair (skip: u32, len: u32).\<close>

record ds_sparse_chunk_t =
  skip :: "32 word"
  len :: "32 word"

text \<open>\<open>#define XB_STREAM_MIN_CHUNK_SIZE (10 * 1024 * 1024)\<close>\<close>

definition XB_STREAM_MIN_CHUNK_SIZE :: nat where
  "XB_STREAM_MIN_CHUNK_SIZE = 10 * 1024 * 1024"

subsection \<open>The helpers of headers that are not in the source tree\<close>

text \<open>Modelled from the spec: \<open>int4store\<close> and \<open>int8store\<close> come from my_byteorder.h,
  which is not in the source tree; the spec's byte codec stores a 32-bit and a 64-bit
  unsigned integer in little-endian order, least significant byte first.\<close>

definition int4store :: "32 word \<Rightarrow> uchar list" where
  "int4store A = [ucast A, ucast (drop_bit 8 A), ucast (drop_bit 16 A), ucast (drop_bit 24 A)]"

definition int8store :: "64 word \<Rightarrow> uchar list" where
  "int8store A = [ucast A, ucast (drop_bit 8 A), ucast (drop_bit 16 A), ucast (drop_bit 24 A),
                  ucast (drop_bit 32 A), ucast (drop_bit 40 A), ucast (drop_bit 48 A),
                  ucast (drop_bit 56 A)]"

text \<open>Modelled from the spec: \<open>crc32_iso3309\<close> is declared in crc_glue.h, which is not in
  the source tree. The spec's CRC engine: the CRC-32 of ISO 3309 with the reflected
  polynomial \<open>0xEDB88320\<close>, as an incremental update \<open>crc32(seed, bytes)\<close> that is started
  with the seed 0 and whose result is stored as it is. The running value is complemented
  (xor with \<open>0xFFFFFFFF\<close>) on entry and on exit of an update, which is the convention
  of ISO 3309 under which the spec's own value CRC32("hello") = \<open>0x3610A686\<close> holds and
  an update over no bytes returns its seed.\<close>

definition crc32_bit :: "32 word \<Rightarrow> 32 word" where
  "crc32_bit c = (if bit c 0 then drop_bit 1 c XOR 0xEDB88320 else drop_bit 1 c)"

definition crc32_byte :: "32 word \<Rightarrow> uchar \<Rightarrow> 32 word" where
  "crc32_byte c b = (crc32_bit ^^ 8) (c XOR ucast b)"

definition crc32_iso3309 :: "32 word \<Rightarrow> uchar list \<Rightarrow> 32 word" where
  "crc32_iso3309 crc buf = foldl crc32_byte (crc XOR 0xFFFFFFFF) buf XOR 0xFFFFFFFF"

text \<open>\<open>strlen\<close> of a C string given by the bytes at its address: the number of bytes before
  the first NUL.\<close>

definition strlen :: "uchar list \<Rightarrow> nat" where
  "strlen s = length (takeWhile (\<lambda>c. c \<noteq> 0) s)"

text \<open>Modelled from the spec: \<open>my_realloc\<close> belongs to the mysys library, which is not in
  the source tree. It returns a buffer of the requested size that keeps the old contents;
  the bytes beyond them are unspecified and are taken as 0 here.\<close>

definition my_realloc :: "uchar list \<Rightarrow> nat \<Rightarrow> uchar list" where
  "my_realloc old n = take n old @ replicate (n - length old) 0"

text \<open>A write of the bytes \<open>bs\<close> at position \<open>p\<close> of the buffer \<open>b\<close>.\<close>

definition store_at :: "nat \<Rightarrow> uchar list \<Rightarrow> uchar list \<Rightarrow> uchar list" where
  "store_at p bs b = take p b @ bs @ drop (p + length bs) b"

subsection \<open>The stream and the file handle (xbstream_write.cc)\<close>

text \<open>\<open>struct xb_wstream_struct\<close> holds the mutex of the stream; \<open>True\<close> is a mutex that
  is held. Locking a mutex that is held does not return in a run of one thread, which is
  the value \<open>None\<close>.\<close>

record xb_wstream_t =
  mutex :: bool

definition mutex_lock :: "xb_wstream_t \<Rightarrow> xb_wstream_t option" where
  "mutex_lock stream = (if mutex stream then None else Some (stream\<lparr>mutex := True\<rparr>))"

definition mutex_unlock :: "xb_wstream_t \<Rightarrow> xb_wstream_t" where
  "mutex_unlock stream = stream\<lparr>mutex := False\<rparr>"

text \<open>\<open>xb_stream_write_callback\<close>: the sink callback receives the user data and the
  buffer with its length, and returns the \<open>ssize_t\<close> result together with the state of
  the user data after the call. (The callback also receives the handle, which it only
  reads.)\<close>

type_synonym 's xb_stream_write_callback = "'s \<Rightarrow> uchar list \<Rightarrow> int \<times> 's"

text \<open>\<open>struct xb_wstream_file_struct\<close>. The field \<open>chunk\<close> holds the bytes between
  \<open>chunk\<close> and \<open>chunk_ptr\<close> of the C structure, so \<open>chunk_ptr == chunk\<close> is \<open>chunk = []\<close>
  and \<open>chunk_ptr - chunk\<close> is the length of the list. The C field \<open>write\<close> is called
  \<open>onwrite\<close> here, after the parameter of \<open>xb_stream_write_open\<close> it is set from. The
  stream and the user data a handle points to are passed to every operation and
  returned by it.\<close>

record 's xb_wstream_file_t =
  path :: "uchar list"
  path_len :: nat
  chunk :: "uchar list"
  chunk_free :: nat
  sparse_map_buf :: "uchar list"
  sparse_map_buf_size :: nat
  offset :: "64 word"
  onwrite :: "'s xb_stream_write_callback"

text \<open>The default callback writes to the standard output with \<open>my_write\<close> of mysys, which
  is not in the source tree and is a parameter here: it returns whether the write failed,
  and the state of the output after it.\<close>

definition xb_stream_default_write_callback ::
  "('s \<Rightarrow> uchar list \<Rightarrow> bool \<times> 's) \<Rightarrow> 's xb_stream_write_callback" where
  "xb_stream_default_write_callback my_write userdata buf =
     (case my_write userdata buf of
        (failed, userdata) \<Rightarrow> (if failed then - 1 else int (length buf), userdata))"

definition xb_stream_write_new :: xb_wstream_t where
  "xb_stream_write_new = \<lparr>mutex = False\<rparr>"

text \<open>\<open>xb_stream_write_open\<close>: \<open>None\<close> is the NULL it returns for a path that is too long.
  \<open>FN_REFLEN\<close> comes from my_io.h, which is not in the source tree, and is a parameter.
  The allocation is zero-filled (\<open>MY_ZEROFILL\<close>), which gives the sparse map buffer and its
  size.\<close>

definition xb_stream_write_open ::
  "nat \<Rightarrow> ('s \<Rightarrow> uchar list \<Rightarrow> bool \<times> 's) \<Rightarrow> uchar list \<Rightarrow>
   's xb_stream_write_callback option \<Rightarrow> 's xb_wstream_file_t option" where
  "xb_stream_write_open FN_REFLEN my_write cpath cb =
     (let n = strlen cpath in
      if n > FN_REFLEN then None
      else Some \<lparr>path = take n cpath, path_len = n,
                 chunk = [], chunk_free = XB_STREAM_MIN_CHUNK_SIZE,
                 sparse_map_buf = [], sparse_map_buf_size = 0,
                 offset = 0,
                 onwrite = (case cb of Some f \<Rightarrow> f
                            | None \<Rightarrow> xb_stream_default_write_callback my_write)\<rparr>)"

text \<open>The loop that serialises the sparse map into \<open>sparse_map_buf\<close>; \<open>sparse_ptr\<close> is the
  position in the buffer.\<close>

fun store_sparse_map :: "ds_sparse_chunk_t list \<Rightarrow> nat \<Rightarrow> uchar list \<Rightarrow> uchar list" where
  "store_sparse_map [] sparse_ptr b = b"
| "store_sparse_map (c # cs) sparse_ptr b =
     store_sparse_map cs (sparse_ptr + 4 + 4)
       (store_at (sparse_ptr + 4) (int4store (len c)) (store_at sparse_ptr (int4store (skip c)) b))"

text \<open>The loop \<open>file->offset += sparse_map[i].skip\<close>.\<close>

fun add_skips :: "ds_sparse_chunk_t list \<Rightarrow> 64 word \<Rightarrow> 64 word" where
  "add_skips [] off = off"
| "add_skips (c # cs) off = add_skips cs (off + ucast (skip c))"

text \<open>\<open>xb_stream_write_chunk\<close>. The result is the return value, the handle, the stream and
  the user data after the call.\<close>

definition xb_stream_write_chunk ::
  "'s xb_wstream_file_t \<Rightarrow> uchar list \<Rightarrow> ds_sparse_chunk_t list \<Rightarrow> xb_wstream_t \<Rightarrow> 's \<Rightarrow>
   (int \<times> 's xb_wstream_file_t \<times> xb_wstream_t \<times> 's) option" where
  "xb_stream_write_chunk file buf sparse_map stream userdata =
     (let sparse_map_size = length sparse_map;
          tmpbuf = XB_STREAM_CHUNK_MAGIC;
          tmpbuf = tmpbuf @ [0];
          tmpbuf = tmpbuf @ [chunk_type_uchar (if sparse_map_size > 0 then XB_CHUNK_TYPE_SPARSE
                                              else XB_CHUNK_TYPE_PAYLOAD)];
          tmpbuf = tmpbuf @ int4store (of_nat (path_len file));
          tmpbuf = tmpbuf @ take (path_len file) (path file);
          tmpbuf = (if sparse_map_size > 0 then tmpbuf @ int4store (of_nat sparse_map_size)
                    else tmpbuf);
          tmpbuf = tmpbuf @ int8store (of_nat (length buf));
          file = (if sparse_map_buf_size file < 4 * 2 * sparse_map_size
                  then file\<lparr>sparse_map_buf :=
                              my_realloc (sparse_map_buf file) (4 * 2 * sparse_map_size)\<rparr>
                  else file);
          file = file\<lparr>sparse_map_buf := store_sparse_map sparse_map 0 (sparse_map_buf file)\<rparr>;
          checksum = crc32_iso3309 0 (take (4 * 2 * sparse_map_size) (sparse_map_buf file));
          checksum = crc32_iso3309 checksum buf
      in case mutex_lock stream of
           None \<Rightarrow> None
         | Some stream \<Rightarrow>
             (let tmpbuf = tmpbuf @ int8store (offset file);
                  tmpbuf = tmpbuf @ int4store checksum
              in case onwrite file userdata tmpbuf of
                (r, userdata) \<Rightarrow>
                  if r = - 1 then Some (1, file, mutex_unlock stream, userdata)
                  else
                    (case onwrite file userdata
                            (take (4 * 2 * sparse_map_size) (sparse_map_buf file)) of
                       (r, userdata) \<Rightarrow>
                         if r = - 1 then Some (1, file, mutex_unlock stream, userdata)
                         else
                           (case onwrite file userdata buf of
                              (r, userdata) \<Rightarrow>
                                if r = - 1 then Some (1, file, mutex_unlock stream, userdata)
                                else
                                  (let file = file\<lparr>offset := add_skips sparse_map (offset file)\<rparr>;
                                       file = file\<lparr>offset := offset file + of_nat (length buf)\<rparr>
                                   in Some (0, file, mutex_unlock stream, userdata))))))"

text \<open>\<open>xb_stream_write_eof\<close>. The handle is only read.\<close>

definition xb_stream_write_eof ::
  "'s xb_wstream_file_t \<Rightarrow> xb_wstream_t \<Rightarrow> 's \<Rightarrow> (int \<times> xb_wstream_t \<times> 's) option" where
  "xb_stream_write_eof file stream userdata =
     (case mutex_lock stream of
        None \<Rightarrow> None
      | Some stream \<Rightarrow>
          (let tmpbuf = XB_STREAM_CHUNK_MAGIC;
               tmpbuf = tmpbuf @ [0];
               tmpbuf = tmpbuf @ [chunk_type_uchar XB_CHUNK_TYPE_EOF];
               tmpbuf = tmpbuf @ int4store (of_nat (path_len file));
               tmpbuf = tmpbuf @ take (path_len file) (path file)
           in case onwrite file userdata tmpbuf of
             (r, userdata) \<Rightarrow>
               if r = - 1 then Some (1, mutex_unlock stream, userdata)
               else Some (0, mutex_unlock stream, userdata)))"

text \<open>\<open>xb_stream_flush\<close>\<close>

definition xb_stream_flush ::
  "'s xb_wstream_file_t \<Rightarrow> xb_wstream_t \<Rightarrow> 's \<Rightarrow>
   (int \<times> 's xb_wstream_file_t \<times> xb_wstream_t \<times> 's) option" where
  "xb_stream_flush file stream userdata =
     (if chunk file = [] then Some (0, file, stream, userdata)
      else
        (case xb_stream_write_chunk file (chunk file) [] stream userdata of
           None \<Rightarrow> None
         | Some (rc, file, stream, userdata) \<Rightarrow>
             if rc \<noteq> 0 then Some (1, file, stream, userdata)
             else Some (0, file\<lparr>chunk := [], chunk_free := XB_STREAM_MIN_CHUNK_SIZE\<rparr>,
                        stream, userdata)))"

text \<open>\<open>xb_stream_write_data\<close>\<close>

definition xb_stream_write_data ::
  "'s xb_wstream_file_t \<Rightarrow> uchar list \<Rightarrow> xb_wstream_t \<Rightarrow> 's \<Rightarrow>
   (int \<times> 's xb_wstream_file_t \<times> xb_wstream_t \<times> 's) option" where
  "xb_stream_write_data file buf stream userdata =
     (if length buf < chunk_free file
      then Some (0, file\<lparr>chunk := chunk file @ buf,
                          chunk_free := chunk_free file - length buf\<rparr>, stream, userdata)
      else
        (case xb_stream_flush file stream userdata of
           None \<Rightarrow> None
         | Some (rc, file, stream, userdata) \<Rightarrow>
             if rc \<noteq> 0 then Some (1, file, stream, userdata)
             else xb_stream_write_chunk file buf [] stream userdata))"

text \<open>\<open>xb_stream_write_sparse_data\<close>\<close>

definition xb_stream_write_sparse_data ::
  "'s xb_wstream_file_t \<Rightarrow> uchar list \<Rightarrow> ds_sparse_chunk_t list \<Rightarrow> xb_wstream_t \<Rightarrow> 's \<Rightarrow>
   (int \<times> 's xb_wstream_file_t \<times> xb_wstream_t \<times> 's) option" where
  "xb_stream_write_sparse_data file buf sparse_map stream userdata =
     (case xb_stream_flush file stream userdata of
        None \<Rightarrow> None
      | Some (rc, file, stream, userdata) \<Rightarrow>
          if rc \<noteq> 0 then Some (1, file, stream, userdata)
          else xb_stream_write_chunk file buf sparse_map stream userdata)"

text \<open>\<open>xb_stream_write_close\<close>: \<open>xb_stream_flush(file) || xb_stream_write_eof(file)\<close>
  evaluates its second operand only when the first is 0. The handle is freed, so the
  result is the return value, the stream and the user data.\<close>

definition xb_stream_write_close ::
  "'s xb_wstream_file_t \<Rightarrow> xb_wstream_t \<Rightarrow> 's \<Rightarrow> (int \<times> xb_wstream_t \<times> 's) option" where
  "xb_stream_write_close file stream userdata =
     (case xb_stream_flush file stream userdata of
        None \<Rightarrow> None
      | Some (rc, file, stream, userdata) \<Rightarrow>
          if rc \<noteq> 0 then Some (1, stream, userdata)
          else
            (case xb_stream_write_eof file stream userdata of
               None \<Rightarrow> None
             | Some (rc, stream, userdata) \<Rightarrow>
                 Some (if rc \<noteq> 0 then 1 else 0, stream, userdata)))"

subsection \<open>The wire format in the words of the specification\<close>

text \<open>The definitions of this subsection follow the specification, not the code: they say
  what the bytes on the wire are, and the theorems below compare the writer with them.
  \<open>le_bytes w v\<close> is the \<open>w\<close>-byte little-endian encoding of \<open>v\<close>: byte \<open>i\<close> is
  \<open>v div 256 ^ i mod 256\<close> (the conversion to a byte reduces modulo 256).\<close>

definition le_bytes :: "nat \<Rightarrow> nat \<Rightarrow> uchar list" where
  "le_bytes w v = map (\<lambda>i. of_nat (v div 256 ^ i)) [0..<w]"

text \<open>The sparse map on the wire: k pairs of 4-byte little-endian (skip, len).\<close>

definition sparse_map_bytes :: "ds_sparse_chunk_t list \<Rightarrow> uchar list" where
  "sparse_map_bytes sm =
     concat (map (\<lambda>c. le_bytes 4 (unat (skip c)) @ le_bytes 4 (unat (len c))) sm)"

text \<open>The header of a data chunk: magic, flags, type, path length, path, the sparse map
  size only when the type is \<open>'S'\<close>, payload length, payload offset, checksum.\<close>

definition data_chunk_header ::
  "uchar \<Rightarrow> uchar \<Rightarrow> uchar list \<Rightarrow> nat \<Rightarrow> nat \<Rightarrow> nat \<Rightarrow> nat \<Rightarrow> uchar list" where
  "data_chunk_header fl ty p k n off crc =
     map of_char ''XBSTCK01'' @ [fl] @ [ty] @ le_bytes 4 (length p) @ p @
     (if ty = of_char CHR ''S'' then le_bytes 4 k else []) @
     le_bytes 8 n @ le_bytes 8 off @ le_bytes 4 crc"

text \<open>The checksum of a chunk: CRC-32 with seed 0 over the sparse map bytes, then chained
  over the payload.\<close>

definition chunk_checksum :: "ds_sparse_chunk_t list \<Rightarrow> uchar list \<Rightarrow> 32 word" where
  "chunk_checksum sm buf = crc32_iso3309 (crc32_iso3309 0 (sparse_map_bytes sm)) buf"

text \<open>The three buffers of one data chunk, in the order they go to the sink: header,
  sparse map, payload. The type is \<open>'S'\<close> when the map has an entry and \<open>'P'\<close> otherwise,
  and the flags byte is 0.\<close>

definition data_chunk_writes ::
  "uchar list \<Rightarrow> 64 word \<Rightarrow> uchar list \<Rightarrow> ds_sparse_chunk_t list \<Rightarrow> uchar list list" where
  "data_chunk_writes p off buf sm =
     [data_chunk_header 0 (if sm = [] then of_char CHR ''P'' else of_char CHR ''S'') p
        (length sm) (length buf) (unat off) (unat (chunk_checksum sm buf)),
      sparse_map_bytes sm, buf]"

text \<open>An EOF chunk: magic, flags, type \<open>'E'\<close>, path length, path, and nothing more.\<close>

definition eof_chunk :: "uchar list \<Rightarrow> uchar list" where
  "eof_chunk p =
     map of_char ''XBSTCK01'' @ [0] @ [of_char CHR ''E''] @ le_bytes 4 (length p) @ p"

text \<open>What a flush of the coalescing buffer sends: nothing when the buffer is empty, and
  otherwise one \<open>'P'\<close> chunk that holds the buffer.\<close>

definition flush_writes :: "'s xb_wstream_file_t \<Rightarrow> uchar list list" where
  "flush_writes file =
     (if chunk file = [] then []
      else data_chunk_writes (path file) (offset file) (chunk file) [])"

text \<open>The sum of the skip values of a sparse map, in the 64-bit arithmetic of the offset.\<close>

definition sum_skips :: "ds_sparse_chunk_t list \<Rightarrow> 64 word" where
  "sum_skips sm = sum_list (map (\<lambda>c. ucast (skip c)) sm)"

subsection \<open>Handles, sinks and runs\<close>

text \<open>The handles the operations produce keep these relations between their fields:
  \<open>path_len\<close> is the length of the path, the coalescing buffer and its free space add up
  to \<open>XB_STREAM_MIN_CHUNK_SIZE\<close> with at least one byte free, and the recorded size of the
  sparse map buffer does not exceed the buffer.\<close>

definition wf_file :: "'s xb_wstream_file_t \<Rightarrow> bool" where
  "wf_file file \<longleftrightarrow>
     path_len file = length (path file) \<and>
     0 < chunk_free file \<and>
     length (chunk file) + chunk_free file = XB_STREAM_MIN_CHUNK_SIZE \<and>
     sparse_map_buf_size file \<le> length (sparse_map_buf file)"

text \<open>The contents of the sparse map buffer of a handle after a chunk with the map \<open>sm\<close>.\<close>

definition sparse_map_buf_after ::
  "'s xb_wstream_file_t \<Rightarrow> ds_sparse_chunk_t list \<Rightarrow> uchar list" where
  "sparse_map_buf_after file sm =
     sparse_map_bytes sm @
     drop (8 * length sm)
       (if sparse_map_buf_size file < 8 * length sm
        then my_realloc (sparse_map_buf file) (8 * length sm) else sparse_map_buf file)"

text \<open>A sink that records the buffers it accepts, in order. \<open>ret\<close> decides the return value
  of every call from the buffers accepted so far and the buffer offered; a call that
  returns -1 leaves the record as it is.\<close>

definition recording ::
  "(uchar list list \<Rightarrow> uchar list \<Rightarrow> int) \<Rightarrow> uchar list list xb_stream_write_callback" where
  "recording ret tr b = (let r = ret tr b in (r, if r = - 1 then tr else tr @ [b]))"

text \<open>\<open>offer ret tr bs\<close> hands the buffers \<open>bs\<close> to such a sink one after the other and
  stops at the first that is refused: the result says whether all were accepted, and
  gives the record after the last call.\<close>

fun offer ::
  "(uchar list list \<Rightarrow> uchar list \<Rightarrow> int) \<Rightarrow> uchar list list \<Rightarrow> uchar list list \<Rightarrow>
   bool \<times> uchar list list" where
  "offer ret tr [] = (True, tr)"
| "offer ret tr (b # bs) = (if ret tr b = - 1 then (False, tr) else offer ret (tr @ [b]) bs)"

text \<open>A sink that accepts every buffer, and one that refuses the header of a \<open>'P'\<close> chunk
  and accepts every other buffer.\<close>

definition accept_all :: "uchar list list \<Rightarrow> uchar list \<Rightarrow> int" where
  "accept_all tr b = int (length b)"

definition refuse_payload_header :: "uchar list list \<Rightarrow> uchar list \<Rightarrow> int" where
  "refuse_payload_header tr b =
     (if take 10 b = map of_char ''XBSTCK01'' @ [0, of_char CHR ''P''] then - 1
      else int (length b))"

text \<open>The handle that \<open>xb_stream_write_open\<close> returns for the path "a.txt" and a recording
  sink, and the same handle after the one byte 1 has been written to it.\<close>

definition opened_file :: "(uchar list list \<Rightarrow> uchar list \<Rightarrow> int) \<Rightarrow> uchar list list xb_wstream_file_t"
  where
  "opened_file ret =
     \<lparr>path = map of_char ''a.txt'', path_len = 5,
      chunk = [], chunk_free = XB_STREAM_MIN_CHUNK_SIZE,
      sparse_map_buf = [], sparse_map_buf_size = 0,
      offset = 0, onwrite = recording ret\<rparr>"

definition buffered_file :: "(uchar list list \<Rightarrow> uchar list \<Rightarrow> int) \<Rightarrow> uchar list list xb_wstream_file_t"
  where
  "buffered_file ret =
     (opened_file ret)\<lparr>chunk := [1], chunk_free := XB_STREAM_MIN_CHUNK_SIZE - 1\<rparr>"

text \<open>A sequence of chunk emissions on one handle, each given by its payload and its
  sparse map; the run stops at the first emission that fails.\<close>

fun emit_all ::
  "'s xb_wstream_file_t \<Rightarrow> (uchar list \<times> ds_sparse_chunk_t list) list \<Rightarrow> xb_wstream_t \<Rightarrow> 's \<Rightarrow>
   (int \<times> 's xb_wstream_file_t \<times> xb_wstream_t \<times> 's) option" where
  "emit_all file [] stream userdata = Some (0, file, stream, userdata)"
| "emit_all file ((buf, sm) # cs) stream userdata =
     (case xb_stream_write_chunk file buf sm stream userdata of
        None \<Rightarrow> None
      | Some (rc, file, stream, userdata) \<Rightarrow>
          if rc \<noteq> 0 then Some (rc, file, stream, userdata)
          else emit_all file cs stream userdata)"

text \<open>The contribution of one chunk to the offset of its file, as a natural number: the
  length of the payload plus the skip values of the sparse map.\<close>

definition chunk_advance :: "uchar list \<times> ds_sparse_chunk_t list \<Rightarrow> nat" where
  "chunk_advance c = length (fst c) + sum_list (map (\<lambda>e. unat (skip e)) (snd c))"

section \<open>Properties of the writer\<close>

subsection \<open>The byte codec and the loops\<close>

lemma magic_bytes: "XB_STREAM_CHUNK_MAGIC = [0x58, 0x42, 0x53, 0x54, 0x43, 0x4B, 0x30, 0x31]"
  by (simp add: XB_STREAM_CHUNK_MAGIC_def)

lemma ucast_drop_bit_of_nat:
  "k + 8 \<le> LENGTH('a) \<Longrightarrow>
   (ucast (drop_bit k (of_nat n :: 'a::len word)) :: 8 word) = of_nat (n div 2 ^ k)"
  apply (intro bit_word_eqI)
  apply (auto simp add: bit_simps simp flip: drop_bit_eq_div)
  done

lemma int4store_of_nat: "int4store (of_nat n) = le_bytes 4 n"
  using ucast_drop_bit_of_nat [of 0 n, where 'a=32] ucast_drop_bit_of_nat [of 8 n, where 'a=32]
    ucast_drop_bit_of_nat [of 16 n, where 'a=32] ucast_drop_bit_of_nat [of 24 n, where 'a=32]
  by (simp add: int4store_def le_bytes_def upt_rec)

lemma int4store_unat: "int4store w = le_bytes 4 (unat w)"
  using int4store_of_nat [of "unat w"] by simp

lemma int8store_of_nat: "int8store (of_nat n) = le_bytes 8 n"
  using ucast_drop_bit_of_nat [of 0 n, where 'a=64] ucast_drop_bit_of_nat [of 8 n, where 'a=64]
    ucast_drop_bit_of_nat [of 16 n, where 'a=64] ucast_drop_bit_of_nat [of 24 n, where 'a=64]
    ucast_drop_bit_of_nat [of 32 n, where 'a=64] ucast_drop_bit_of_nat [of 40 n, where 'a=64]
    ucast_drop_bit_of_nat [of 48 n, where 'a=64] ucast_drop_bit_of_nat [of 56 n, where 'a=64]
  by (simp add: int8store_def le_bytes_def upt_rec)

lemma int8store_unat: "int8store w = le_bytes 8 (unat w)"
  using int8store_of_nat [of "unat w"] by simp

lemma le_bytes_4_of_nat: "le_bytes 4 (unat (of_nat n :: 32 word)) = le_bytes 4 n"
  using int4store_of_nat [of n] int4store_unat [of "of_nat n"] by simp

lemma le_bytes_8_of_nat: "le_bytes 8 (unat (of_nat n :: 64 word)) = le_bytes 8 n"
  using int8store_of_nat [of n] int8store_unat [of "of_nat n"] by simp

lemma length_le_bytes [simp]: "length (le_bytes w v) = w"
  by (simp add: le_bytes_def)

lemma length_sparse_map_bytes [simp]: "length (sparse_map_bytes sm) = 8 * length sm"
  by (induction sm) (simp_all add: sparse_map_bytes_def)

lemma sparse_map_bytes_Nil [simp]: "sparse_map_bytes [] = []"
  by (simp add: sparse_map_bytes_def)

lemma sparse_map_bytes_Cons:
  "sparse_map_bytes (c # cs) =
     le_bytes 4 (unat (skip c)) @ le_bytes 4 (unat (len c)) @ sparse_map_bytes cs"
  by (simp add: sparse_map_bytes_def)

lemma store_sparse_map_eq:
  "p + 8 * length cs \<le> length b \<Longrightarrow>
   store_sparse_map cs p b = take p b @ sparse_map_bytes cs @ drop (p + 8 * length cs) b"
proof (induction cs arbitrary: p b)
  case Nil
  then show ?case by simp
next
  case (Cons c cs)
  let ?b = "store_at (p + 4) (int4store (len c)) (store_at p (int4store (skip c)) b)"
  have b: "?b = take p b @ le_bytes 4 (unat (skip c)) @ le_bytes 4 (unat (len c)) @ drop (p + 8) b"
    using Cons.prems by (simp add: store_at_def int4store_unat min_def add.commute)
  have "p + 8 + 8 * length cs \<le> length ?b"
    using Cons.prems by (simp add: b)
  from Cons.IH [OF this] show ?case
    using Cons.prems by (simp add: b sparse_map_bytes_Cons add.assoc add.commute)
qed

lemma add_skips_eq: "add_skips cs off = off + sum_skips cs"
  by (induction cs arbitrary: off) (simp_all add: sum_skips_def add.assoc)

lemma store_sparse_map_code:
  assumes "sparse_map_buf_size file \<le> length (sparse_map_buf file)"
  shows "store_sparse_map sm 0
           (if sparse_map_buf_size file < 4 * 2 * length sm
            then my_realloc (sparse_map_buf file) (4 * 2 * length sm) else sparse_map_buf file)
         = sparse_map_buf_after file sm"
proof -
  let ?b = "if sparse_map_buf_size file < 4 * 2 * length sm
            then my_realloc (sparse_map_buf file) (4 * 2 * length sm) else sparse_map_buf file"
  have "0 + 8 * length sm \<le> length ?b"
    using assms by (auto simp add: my_realloc_def min_def)
  from store_sparse_map_eq [OF this] show ?thesis
    by (simp add: sparse_map_buf_after_def)
qed

lemma take_sparse_map_buf_after [simp]:
  "take (8 * length sm) (sparse_map_buf_after file sm) = sparse_map_bytes sm"
  by (simp add: sparse_map_buf_after_def)

lemma sparse_map_buf_after_Nil: "sparse_map_buf_after file [] = sparse_map_buf file"
  by (simp add: sparse_map_buf_after_def)

subsection \<open>One chunk emission\<close>

lemma mutex_unlock_id: "\<not> mutex stream \<Longrightarrow> mutex_unlock (stream\<lparr>mutex := True\<rparr>) = stream"
  by (simp add: mutex_unlock_def)

text \<open>The emission of a data chunk on a handle whose mutex is free, for any callback: the
  three sink calls in order, each taken only when the one before did not return -1.\<close>

lemma xb_stream_write_chunk_unfold:
  assumes "wf_file file" and "\<not> mutex stream"
  shows "xb_stream_write_chunk file buf sm stream ud =
    (let file1 = file\<lparr>sparse_map_buf := sparse_map_buf_after file sm\<rparr>;
         ws = data_chunk_writes (path file) (offset file) buf sm in
     case onwrite file ud (ws ! 0) of (r1, u1) \<Rightarrow>
       if r1 = - 1 then Some (1, file1, stream, u1) else
     case onwrite file u1 (ws ! 1) of (r2, u2) \<Rightarrow>
       if r2 = - 1 then Some (1, file1, stream, u2) else
     case onwrite file u2 (ws ! 2) of (r3, u3) \<Rightarrow>
       if r3 = - 1 then Some (1, file1, stream, u3) else
       Some (0, file1\<lparr>offset := offset file + sum_skips sm + of_nat (length buf)\<rparr>, stream, u3))"
proof -
  define file1 where "file1 = (if sparse_map_buf_size file < 4 * 2 * length sm
                  then file\<lparr>sparse_map_buf :=
                              my_realloc (sparse_map_buf file) (4 * 2 * length sm)\<rparr>
                  else file)"
  define file2 where
    "file2 = file1\<lparr>sparse_map_buf := store_sparse_map sm 0 (sparse_map_buf file1)\<rparr>"
  have f2: "file2 = file\<lparr>sparse_map_buf := sparse_map_buf_after file sm\<rparr>"
    using store_sparse_map_code [of "file" sm] assms(1)
    by (auto simp add: file2_def file1_def wf_file_def split: if_splits)
  define h where "h = data_chunk_writes (path file) (offset file) buf sm ! 0"
  have hd: "(if length sm > 0 then
       XB_STREAM_CHUNK_MAGIC @ [0] @
      [chunk_type_uchar (if length sm > 0 then XB_CHUNK_TYPE_SPARSE else XB_CHUNK_TYPE_PAYLOAD)] @
      int4store (of_nat (path_len file)) @ take (path_len file) (path file) @
       int4store (of_nat (length sm)) else XB_STREAM_CHUNK_MAGIC @ [0] @
      [chunk_type_uchar (if length sm > 0 then XB_CHUNK_TYPE_SPARSE else XB_CHUNK_TYPE_PAYLOAD)] @
      int4store (of_nat (path_len file)) @ take (path_len file) (path file)) @
      int8store (of_nat (length buf)) @ int8store (offset file2) @
      int4store (crc32_iso3309 (crc32_iso3309 0 (take (4 * 2 * length sm) (sparse_map_buf file2))) buf)
      = h"
    using assms(1)
    by (simp add: h_def f2 data_chunk_writes_def data_chunk_header_def chunk_checksum_def
        wf_file_def XB_STREAM_CHUNK_MAGIC_def
        int4store_unat int8store_unat le_bytes_4_of_nat le_bytes_8_of_nat)
  have eq: "xb_stream_write_chunk file buf sm stream ud =
     (case onwrite file2 ud h of (r1, u1) \<Rightarrow>
       if r1 = - 1 then Some (1, file2, stream, u1) else
     case onwrite file2 u1 (take (4 * 2 * length sm) (sparse_map_buf file2)) of (r2, u2) \<Rightarrow>
       if r2 = - 1 then Some (1, file2, stream, u2) else
     case onwrite file2 u2 buf of (r3, u3) \<Rightarrow>
       if r3 = - 1 then Some (1, file2, stream, u3) else
       Some (0, file2\<lparr>offset := add_skips sm (offset file2) + of_nat (length buf)\<rparr>, stream, u3))"
    unfolding xb_stream_write_chunk_def Let_def mutex_lock_def
    unfolding file1_def [symmetric]
    unfolding file2_def [symmetric]
    using assms(2)
    apply (simp only: if_False option.case append_assoc)
    apply (simp only: hd [simplified append_assoc])
    apply (simp add: mutex_unlock_id cong: prod.case_cong if_cong split del: if_split)
    done
  show ?thesis
    unfolding eq f2 h_def
    by (simp add: add_skips_eq Let_def data_chunk_writes_def
        cong: prod.case_cong if_cong split del: if_split)
qed

text \<open>The same emission into a recording sink.\<close>

lemma xb_stream_write_chunk_recording:
  assumes "wf_file file" and "\<not> mutex stream" and "onwrite file = recording ret"
  shows "xb_stream_write_chunk file buf sm stream tr =
     (case offer ret tr (data_chunk_writes (path file) (offset file) buf sm) of
        (ok, tr') \<Rightarrow>
          Some (if ok then 0 else 1,
                file\<lparr>sparse_map_buf := sparse_map_buf_after file sm,
                      offset := (if ok then offset file + sum_skips sm + of_nat (length buf)
                                 else offset file)\<rparr>,
                stream, tr'))"
  unfolding xb_stream_write_chunk_unfold [OF assms(1,2)] assms(3)
  by (simp add: recording_def data_chunk_writes_def Let_def)

lemma xb_stream_write_eof_recording:
  assumes "wf_file file" and "\<not> mutex stream" and "onwrite file = recording ret"
  shows "xb_stream_write_eof file stream tr =
     (case offer ret tr [eof_chunk (path file)] of
        (ok, tr') \<Rightarrow> Some (if ok then 0 else 1, stream, tr'))"
  using assms
  by (simp add: xb_stream_write_eof_def mutex_lock_def mutex_unlock_id Let_def recording_def
      eof_chunk_def wf_file_def int4store_unat le_bytes_4_of_nat XB_STREAM_CHUNK_MAGIC_def)

subsection \<open>The relations between the fields of a handle are kept\<close>

lemma wf_file_write_chunk:
  assumes "wf_file file" and "\<not> mutex stream"
    and "xb_stream_write_chunk file buf sm stream ud = Some (rc, file', stream', ud')"
  shows "wf_file file' \<and> \<not> mutex stream' \<and> onwrite file' = onwrite file \<and>
         path file' = path file \<and> chunk file' = chunk file \<and> chunk_free file' = chunk_free file"
  using assms unfolding xb_stream_write_chunk_unfold [OF assms(1,2)]
  by (auto simp add: Let_def wf_file_def sparse_map_buf_after_def my_realloc_def
      split: prod.splits if_splits)

lemma wf_file_flush:
  assumes "wf_file file" and "\<not> mutex stream"
    and "xb_stream_flush file stream ud = Some (rc, file', stream', ud')"
  shows "wf_file file' \<and> \<not> mutex stream' \<and> onwrite file' = onwrite file \<and>
         path file' = path file"
proof (cases "chunk file = []")
  case True
  then show ?thesis using assms by (simp add: xb_stream_flush_def)
next
  case False
  then obtain rc1 f1 s1 u1 where
    w: "xb_stream_write_chunk file (chunk file) [] stream ud = Some (rc1, f1, s1, u1)"
    using assms(3) by (auto simp add: xb_stream_flush_def split: option.splits)
  from wf_file_write_chunk [OF assms(1,2) w] False assms(3) w show ?thesis
    by (auto simp add: xb_stream_flush_def wf_file_def XB_STREAM_MIN_CHUNK_SIZE_def
        split: if_splits)
qed

text \<open>A flush into a recording sink.\<close>

lemma xb_stream_flush_recording:
  assumes "wf_file file" and "\<not> mutex stream" and "onwrite file = recording ret"
  shows "xb_stream_flush file stream tr =
     (case offer ret tr (flush_writes file) of
        (ok, tr') \<Rightarrow>
          Some (if ok
                then (0, if chunk file = [] then file
                         else file\<lparr>chunk := [], chunk_free := XB_STREAM_MIN_CHUNK_SIZE,
                                   offset := offset file + of_nat (length (chunk file))\<rparr>,
                      stream, tr')
                else (1, file, stream, tr')))"
  unfolding xb_stream_flush_def xb_stream_write_chunk_recording [OF assms]
  by (simp add: sum_skips_def flush_writes_def sparse_map_buf_after_Nil split: prod.splits)

subsection \<open>Sinks and the example handle\<close>

lemma offer_accepted: "offer ret tr bs = (True, tr') \<Longrightarrow> tr' = tr @ bs"
proof (induction bs arbitrary: tr)
  case Nil
  then show ?case by simp
next
  case (Cons b bs)
  from Cons.prems have "offer ret (tr @ [b]) bs = (True, tr')"
    by (simp split: if_splits)
  from Cons.IH [OF this] show ?case by simp
qed

lemma offer_accept_all: "offer accept_all tr bs = (True, tr @ bs)"
  by (induction bs arbitrary: tr) (auto simp add: accept_all_def)

lemma wf_opened_file: "wf_file (opened_file ret)"
  by (simp add: wf_file_def opened_file_def XB_STREAM_MIN_CHUNK_SIZE_def)

lemma wf_buffered_file: "wf_file (buffered_file ret)"
  by (simp add: wf_file_def opened_file_def buffered_file_def XB_STREAM_MIN_CHUNK_SIZE_def)

lemma mutex_new: "\<not> mutex xb_stream_write_new"
  by (simp add: xb_stream_write_new_def)

lemma onwrite_opened_file: "onwrite (opened_file ret) = recording ret"
  by (simp add: opened_file_def)

lemma onwrite_buffered_file: "onwrite (buffered_file ret) = recording ret"
  by (simp add: opened_file_def buffered_file_def)

lemma xb_stream_write_chunk_accept_all:
  assumes "wf_file file" and "\<not> mutex stream" and "onwrite file = recording accept_all"
  shows "xb_stream_write_chunk file buf sm stream tr =
     Some (0, file\<lparr>sparse_map_buf := sparse_map_buf_after file sm,
                    offset := offset file + sum_skips sm + of_nat (length buf)\<rparr>,
           stream, tr @ data_chunk_writes (path file) (offset file) buf sm)"
  unfolding xb_stream_write_chunk_recording [OF assms] by (simp add: offer_accept_all)

subsection \<open>Evaluation of the wire format on concrete chunks\<close>

lemma funpow_8: "(f ^^ 8) x = f (f (f (f (f (f (f (f x)))))))"
  by (simp add: numeral_eq_Suc)

lemma le_bytes_4:
  "le_bytes 4 v = [of_nat v, of_nat (v div 256), of_nat (v div 65536), of_nat (v div 16777216)]"
  by (simp add: le_bytes_def upt_rec)

lemma le_bytes_8:
  "le_bytes 8 v = [of_nat v, of_nat (v div 256), of_nat (v div 65536), of_nat (v div 16777216),
     of_nat (v div 4294967296), of_nat (v div 1099511627776), of_nat (v div 281474976710656),
     of_nat (v div 72057594037927936)]"
  by (simp add: le_bytes_def upt_rec)

lemmas crc32_eval = crc32_iso3309_def crc32_byte_def crc32_bit_def funpow_8

lemmas wire_eval = data_chunk_writes_def data_chunk_header_def chunk_checksum_def eof_chunk_def
  sparse_map_bytes_def le_bytes_4 le_bytes_8

lemma sparse_example_writes:
  "data_chunk_writes (map of_char ''a.txt'') 0 (map of_char ''AB'')
     [\<lparr>skip = 1024, len = 1\<rparr>, \<lparr>skip = 0, len = 1\<rparr>] =
   [[88, 66, 83, 84, 67, 75, 48, 49, 0, 83, 5, 0, 0, 0, 97, 46, 116, 120, 116, 2, 0, 0, 0,
     2, 0, 0, 0, 0, 0, 0, 0, 0, 0, 0, 0, 0, 0, 0, 0, 169, 132, 240, 51],
    [0, 4, 0, 0, 1, 0, 0, 0, 0, 0, 0, 0, 1, 0, 0, 0], [65, 66]]"
  by (simp add: wire_eval crc32_eval)

lemma hello_example_writes:
  "data_chunk_writes (map of_char ''a.txt'') 0 (map of_char ''hello'') [] =
   [[88, 66, 83, 84, 67, 75, 48, 49, 0, 80, 5, 0, 0, 0, 97, 46, 116, 120, 116, 5, 0, 0, 0, 0,
     0, 0, 0, 0, 0, 0, 0, 0, 0, 0, 0, 134, 166, 16, 54], [], [104, 101, 108, 108, 111]]"
  by (simp add: wire_eval crc32_eval)

lemma sparse_example_emitted:
  "xb_stream_write_chunk (opened_file accept_all) (map of_char ''AB'')
     [\<lparr>skip = 1024, len = 1\<rparr>, \<lparr>skip = 0, len = 1\<rparr>] xb_stream_write_new [] =
   Some (0, (opened_file accept_all)
              \<lparr>sparse_map_buf := [0, 4, 0, 0, 1, 0, 0, 0, 0, 0, 0, 0, 1, 0, 0, 0],
               offset := 1026\<rparr>,
         xb_stream_write_new,
         [[88, 66, 83, 84, 67, 75, 48, 49, 0, 83, 5, 0, 0, 0, 97, 46, 116, 120, 116, 2, 0, 0, 0,
           2, 0, 0, 0, 0, 0, 0, 0, 0, 0, 0, 0, 0, 0, 0, 0, 169, 132, 240, 51],
          [0, 4, 0, 0, 1, 0, 0, 0, 0, 0, 0, 0, 1, 0, 0, 0], [65, 66]])"
proof -
  have a: "sparse_map_buf_after (opened_file accept_all)
             [\<lparr>skip = 1024, len = 1\<rparr>, \<lparr>skip = 0, len = 1\<rparr>] =
           [0, 4, 0, 0, 1, 0, 0, 0, 0, 0, 0, 0, 1, 0, 0, 0]"
    by (simp add: sparse_map_buf_after_def my_realloc_def opened_file_def wire_eval)
  have b: "sum_skips [\<lparr>skip = 1024, len = 1\<rparr>, \<lparr>skip = 0, len = 1\<rparr>] = 1024"
    by (simp add: sum_skips_def)
  have p: "path (opened_file accept_all) = map of_char ''a.txt''"
    and o: "offset (opened_file accept_all) = 0"
    by (simp_all add: opened_file_def)
  show ?thesis
    unfolding xb_stream_write_chunk_accept_all [OF wf_opened_file mutex_new onwrite_opened_file]
      a b p o sparse_example_writes
    by simp
qed

lemma hello_example_emitted:
  "xb_stream_write_chunk (opened_file accept_all) (map of_char ''hello'') []
     xb_stream_write_new [] =
   Some (0, (opened_file accept_all)\<lparr>offset := 5\<rparr>, xb_stream_write_new,
         [[88, 66, 83, 84, 67, 75, 48, 49, 0, 80, 5, 0, 0, 0, 97, 46, 116, 120, 116, 5, 0, 0, 0,
           0, 0, 0, 0, 0, 0, 0, 0, 0, 0, 0, 0, 134, 166, 16, 54], [], [104, 101, 108, 108, 111]])"
proof -
  have a: "sparse_map_buf_after (opened_file accept_all) [] = []"
    by (simp add: sparse_map_buf_after_def opened_file_def)
  have b: "sum_skips [] = 0"
    by (simp add: sum_skips_def)
  have p: "path (opened_file accept_all) = map of_char ''a.txt''"
    and o: "offset (opened_file accept_all) = 0"
    by (simp_all add: opened_file_def)
  show ?thesis
    unfolding xb_stream_write_chunk_accept_all [OF wf_opened_file mutex_new onwrite_opened_file]
      a b p o hello_example_writes
    by (simp add: opened_file_def)
qed

section \<open>The claims\<close>

text \<open>
  C1. Every data chunk that \<open>xb_stream_write_chunk\<close> emits goes to the sink as three
  buffers, the header, the sparse map and the payload, and their bytes are in order: the
  magic "XBSTCK01", the flags byte, the type byte, the 4-byte little-endian path length,
  the path, the 4-byte little-endian sparse map size only when the type is \<open>'S'\<close>, the
  8-byte little-endian payload length, the 8-byte little-endian payload offset, the 4-byte
  little-endian checksum, the sparse map as pairs of 4-byte little-endian (skip, len), and
  the payload. The magic, the flags byte and the type byte are at the offsets 0, 8 and 9
  of the chunk.
\<close>

theorem data_chunk_layout:
  assumes "wf_file file" and "\<not> mutex stream" and "onwrite file = recording ret"
    and "xb_stream_write_chunk file buf sm stream tr = Some (0, file', stream', tr')"
  shows "\<exists>crc.
           tr' = tr @ [data_chunk_header 0 (if sm = [] then of_char CHR ''P'' else of_char CHR ''S'')
                        (path file) (length sm) (length buf) (unat (offset file)) crc,
                      sparse_map_bytes sm, buf] \<and>
           take 8 (concat (drop (length tr) tr')) = map of_char ''XBSTCK01'' \<and>
           concat (drop (length tr) tr') ! 8 = 0 \<and>
           concat (drop (length tr) tr') ! CHUNK_TYPE_OFFSET =
             (if sm = [] then of_char CHR ''P'' else of_char CHR ''S'') \<and>
           CHUNK_TYPE_OFFSET = 9"
proof -
  let ?ws = "data_chunk_writes (path file) (offset file) buf sm"
  obtain ok tr1 where o: "offer ret tr ?ws = (ok, tr1)"
    by (cases "offer ret tr ?ws")
  from assms(4) have "ok" and "tr1 = tr'"
    unfolding xb_stream_write_chunk_recording [OF assms(1-3)] o by (simp_all split: if_splits)
  with o have tr': "tr' = tr @ ?ws"
    by (simp add: offer_accepted)
  show ?thesis
    unfolding tr'
    by (rule exI [of _ "unat (chunk_checksum sm buf)"])
      (simp add: data_chunk_writes_def data_chunk_header_def CHUNK_TYPE_OFFSET_def
        XB_STREAM_CHUNK_MAGIC_def nth_append)
qed

theorem data_chunk_layout_witness:
  "wf_file (opened_file accept_all) \<and> \<not> mutex xb_stream_write_new \<and>
   onwrite (opened_file accept_all) = recording accept_all \<and>
   xb_stream_write_chunk (opened_file accept_all) (map of_char ''AB'')
     [\<lparr>skip = 1024, len = 1\<rparr>, \<lparr>skip = 0, len = 1\<rparr>] xb_stream_write_new [] =
   Some (0, (opened_file accept_all)
              \<lparr>sparse_map_buf := [0, 4, 0, 0, 1, 0, 0, 0, 0, 0, 0, 0, 1, 0, 0, 0],
               offset := 1026\<rparr>,
         xb_stream_write_new,
         [[88, 66, 83, 84, 67, 75, 48, 49, 0, 83, 5, 0, 0, 0, 97, 46, 116, 120, 116, 2, 0, 0, 0,
           2, 0, 0, 0, 0, 0, 0, 0, 0, 0, 0, 0, 0, 0, 0, 0, 169, 132, 240, 51],
          [0, 4, 0, 0, 1, 0, 0, 0, 0, 0, 0, 0, 1, 0, 0, 0], [65, 66]]) \<and>
   (\<exists>crc.
      [[88, 66, 83, 84, 67, 75, 48, 49, 0, 83, 5, 0, 0, 0, 97, 46, 116, 120, 116, 2, 0, 0, 0,
        2, 0, 0, 0, 0, 0, 0, 0, 0, 0, 0, 0, 0, 0, 0, 0, 169, 132, 240, 51],
       [0, 4, 0, 0, 1, 0, 0, 0, 0, 0, 0, 0, 1, 0, 0, 0], [65, 66]] =
      [] @ [data_chunk_header 0
             (if [\<lparr>skip = 1024, len = 1\<rparr>, \<lparr>skip = 0, len = 1\<rparr>] = [] then of_char CHR ''P''
              else of_char CHR ''S'')
             (path (opened_file accept_all))
             (length [\<lparr>skip = 1024, len = 1\<rparr>, \<lparr>skip = 0, len = 1\<rparr>])
             (length (map of_char ''AB'' :: uchar list))
             (unat (offset (opened_file accept_all))) crc,
           sparse_map_bytes [\<lparr>skip = 1024, len = 1\<rparr>, \<lparr>skip = 0, len = 1\<rparr>],
           map of_char ''AB''] \<and>
      take 8 (concat (drop (length ([] :: uchar list list))
        [[88, 66, 83, 84, 67, 75, 48, 49, 0, 83, 5, 0, 0, 0, 97, 46, 116, 120, 116, 2, 0, 0, 0,
          2, 0, 0, 0, 0, 0, 0, 0, 0, 0, 0, 0, 0, 0, 0, 0, 169, 132, 240, 51],
         [0, 4, 0, 0, 1, 0, 0, 0, 0, 0, 0, 0, 1, 0, 0, 0], [65, 66 :: uchar]])) = map of_char ''XBSTCK01'' \<and>
      concat (drop (length ([] :: uchar list list))
        [[88, 66, 83, 84, 67, 75, 48, 49, 0, 83, 5, 0, 0, 0, 97, 46, 116, 120, 116, 2, 0, 0, 0,
          2, 0, 0, 0, 0, 0, 0, 0, 0, 0, 0, 0, 0, 0, 0, 0, 169, 132, 240, 51],
         [0, 4, 0, 0, 1, 0, 0, 0, 0, 0, 0, 0, 1, 0, 0, 0], [65, 66 :: uchar]]) ! 8 = 0 \<and>
      concat (drop (length ([] :: uchar list list))
        [[88, 66, 83, 84, 67, 75, 48, 49, 0, 83, 5, 0, 0, 0, 97, 46, 116, 120, 116, 2, 0, 0, 0,
          2, 0, 0, 0, 0, 0, 0, 0, 0, 0, 0, 0, 0, 0, 0, 0, 169, 132, 240, 51],
         [0, 4, 0, 0, 1, 0, 0, 0, 0, 0, 0, 0, 1, 0, 0, 0], [65, 66 :: uchar]]) ! CHUNK_TYPE_OFFSET =
        (if [\<lparr>skip = 1024, len = 1\<rparr>, \<lparr>skip = 0, len = 1\<rparr>] = [] then of_char CHR ''P''
         else of_char CHR ''S'') \<and>
      CHUNK_TYPE_OFFSET = 9)"
proof -
  note h = wf_opened_file [of accept_all] mutex_new onwrite_opened_file [of accept_all]
    sparse_example_emitted
  show ?thesis
    by (rule conjI [OF h(1) conjI [OF h(2) conjI [OF h(3) conjI [OF h(4)
          data_chunk_layout [OF h]]]]])
qed

text \<open>
  C2. The checksum stored in the header of an emitted chunk (its last four bytes) is the
  CRC-32 that starts from the seed 0, runs over the sparse map bytes sent to the sink and
  is then chained over the payload bytes; it equals the CRC-32 of the two byte sequences
  joined. An update over no bytes leaves the seed 0 as it is, and for the payload "hello"
  with no sparse map the checksum is \<open>0x3610A686\<close>.
\<close>

lemma data_chunk_header_checksum:
  "drop (length (data_chunk_header fl ty p k n off crc) - 4)
     (data_chunk_header fl ty p k n off crc) = le_bytes 4 crc"
proof -
  define pre where "pre = map of_char ''XBSTCK01'' @ [fl] @ [ty] @ le_bytes 4 (length p) @ p @
     (if ty = of_char CHR ''S'' then le_bytes 4 k else []) @ le_bytes 8 n @ le_bytes 8 off"
  have "data_chunk_header fl ty p k n off crc = pre @ le_bytes 4 crc"
    by (simp add: data_chunk_header_def pre_def)
  then show ?thesis by simp
qed

lemma crc32_iso3309_Nil: "crc32_iso3309 crc [] = crc"
  by (simp add: crc32_iso3309_def word_bw_assocs)

lemma crc32_iso3309_append:
  "crc32_iso3309 (crc32_iso3309 crc xs) ys = crc32_iso3309 crc (xs @ ys)"
  by (simp add: crc32_iso3309_def word_bw_assocs)

lemma crc32_hello: "crc32_iso3309 0 (map of_char ''hello'') = 0x3610A686"
  by (simp add: crc32_eval)

theorem chunk_checksum_crc32:
  assumes "wf_file file" and "\<not> mutex stream" and "onwrite file = recording ret"
    and "xb_stream_write_chunk file buf sm stream tr = Some (0, file', stream', tr')"
  shows "length tr' = length tr + 3 \<and>
         tr' ! (length tr + 1) = sparse_map_bytes sm \<and>
         tr' ! (length tr + 2) = buf \<and>
         drop (length (tr' ! length tr) - 4) (tr' ! length tr) =
           le_bytes 4 (unat (crc32_iso3309 (crc32_iso3309 0 (tr' ! (length tr + 1)))
                               (tr' ! (length tr + 2)))) \<and>
         crc32_iso3309 (crc32_iso3309 0 (tr' ! (length tr + 1))) (tr' ! (length tr + 2)) =
           crc32_iso3309 0 (tr' ! (length tr + 1) @ tr' ! (length tr + 2)) \<and>
         sparse_map_bytes [] = [] \<and>
         crc32_iso3309 0 [] = 0 \<and>
         crc32_iso3309 (crc32_iso3309 0 []) (map of_char ''hello'') = 0x3610A686"
proof -
  let ?ws = "data_chunk_writes (path file) (offset file) buf sm"
  obtain ok tr1 where o: "offer ret tr ?ws = (ok, tr1)"
    by (cases "offer ret tr ?ws")
  from assms(4) have "ok" and "tr1 = tr'"
    unfolding xb_stream_write_chunk_recording [OF assms(1-3)] o by (simp_all split: if_splits)
  with o have tr': "tr' = tr @ ?ws"
    by (simp add: offer_accepted)
  show ?thesis
    unfolding tr' using crc32_hello
    by (simp add: data_chunk_writes_def nth_append data_chunk_header_checksum chunk_checksum_def
        crc32_iso3309_Nil crc32_iso3309_append)
qed
theorem chunk_checksum_crc32_witness:
  "wf_file (opened_file accept_all) \<and> \<not> mutex xb_stream_write_new \<and>
   onwrite (opened_file accept_all) = recording accept_all \<and>
   xb_stream_write_chunk (opened_file accept_all) (map of_char ''hello'') [] xb_stream_write_new [] =
   Some (0, (opened_file accept_all)\<lparr>offset := 5\<rparr>, xb_stream_write_new,
         [[88, 66, 83, 84, 67, 75, 48, 49, 0, 80, 5, 0, 0, 0, 97, 46, 116, 120, 116, 5, 0, 0, 0,
          0, 0, 0, 0, 0, 0, 0, 0, 0, 0, 0, 0, 134, 166, 16, 54], [],
         [104, 101, 108, 108, 111 :: uchar]]) \<and>
   (length [[88, 66, 83, 84, 67, 75, 48, 49, 0, 80, 5, 0, 0, 0, 97, 46, 116, 120, 116, 5, 0, 0, 0,
          0, 0, 0, 0, 0, 0, 0, 0, 0, 0, 0, 0, 134, 166, 16, 54], [],
         [104, 101, 108, 108, 111 :: uchar]] = length ([] :: uchar list list) + 3 \<and>
         [[88, 66, 83, 84, 67, 75, 48, 49, 0, 80, 5, 0, 0, 0, 97, 46, 116, 120, 116, 5, 0, 0, 0,
          0, 0, 0, 0, 0, 0, 0, 0, 0, 0, 0, 0, 134, 166, 16, 54], [],
         [104, 101, 108, 108, 111 :: uchar]] ! (length ([] :: uchar list list) + 1) = sparse_map_bytes [] \<and>
         [[88, 66, 83, 84, 67, 75, 48, 49, 0, 80, 5, 0, 0, 0, 97, 46, 116, 120, 116, 5, 0, 0, 0,
          0, 0, 0, 0, 0, 0, 0, 0, 0, 0, 0, 0, 134, 166, 16, 54], [],
         [104, 101, 108, 108, 111 :: uchar]] ! (length ([] :: uchar list list) + 2) = map of_char ''hello'' \<and>
         drop (length ([[88, 66, 83, 84, 67, 75, 48, 49, 0, 80, 5, 0, 0, 0, 97, 46, 116, 120, 116, 5, 0, 0, 0,
          0, 0, 0, 0, 0, 0, 0, 0, 0, 0, 0, 0, 134, 166, 16, 54], [],
         [104, 101, 108, 108, 111 :: uchar]] ! length ([] :: uchar list list)) - 4) ([[88, 66, 83, 84, 67, 75, 48, 49, 0, 80, 5, 0, 0, 0, 97, 46, 116, 120, 116, 5, 0, 0, 0,
          0, 0, 0, 0, 0, 0, 0, 0, 0, 0, 0, 0, 134, 166, 16, 54], [],
         [104, 101, 108, 108, 111 :: uchar]] ! length ([] :: uchar list list)) =
           le_bytes 4 (unat (crc32_iso3309 (crc32_iso3309 0 ([[88, 66, 83, 84, 67, 75, 48, 49, 0, 80, 5, 0, 0, 0, 97, 46, 116, 120, 116, 5, 0, 0, 0,
          0, 0, 0, 0, 0, 0, 0, 0, 0, 0, 0, 0, 134, 166, 16, 54], [],
         [104, 101, 108, 108, 111 :: uchar]] ! (length ([] :: uchar list list) + 1)))
                               ([[88, 66, 83, 84, 67, 75, 48, 49, 0, 80, 5, 0, 0, 0, 97, 46, 116, 120, 116, 5, 0, 0, 0,
          0, 0, 0, 0, 0, 0, 0, 0, 0, 0, 0, 0, 134, 166, 16, 54], [],
         [104, 101, 108, 108, 111 :: uchar]] ! (length ([] :: uchar list list) + 2)))) \<and>
         crc32_iso3309 (crc32_iso3309 0 ([[88, 66, 83, 84, 67, 75, 48, 49, 0, 80, 5, 0, 0, 0, 97, 46, 116, 120, 116, 5, 0, 0, 0,
          0, 0, 0, 0, 0, 0, 0, 0, 0, 0, 0, 0, 134, 166, 16, 54], [],
         [104, 101, 108, 108, 111 :: uchar]] ! (length ([] :: uchar list list) + 1))) ([[88, 66, 83, 84, 67, 75, 48, 49, 0, 80, 5, 0, 0, 0, 97, 46, 116, 120, 116, 5, 0, 0, 0,
          0, 0, 0, 0, 0, 0, 0, 0, 0, 0, 0, 0, 134, 166, 16, 54], [],
         [104, 101, 108, 108, 111 :: uchar]] ! (length ([] :: uchar list list) + 2)) =
           crc32_iso3309 0 ([[88, 66, 83, 84, 67, 75, 48, 49, 0, 80, 5, 0, 0, 0, 97, 46, 116, 120, 116, 5, 0, 0, 0,
          0, 0, 0, 0, 0, 0, 0, 0, 0, 0, 0, 0, 134, 166, 16, 54], [],
         [104, 101, 108, 108, 111 :: uchar]] ! (length ([] :: uchar list list) + 1) @ [[88, 66, 83, 84, 67, 75, 48, 49, 0, 80, 5, 0, 0, 0, 97, 46, 116, 120, 116, 5, 0, 0, 0,
          0, 0, 0, 0, 0, 0, 0, 0, 0, 0, 0, 0, 134, 166, 16, 54], [],
         [104, 101, 108, 108, 111 :: uchar]] ! (length ([] :: uchar list list) + 2)) \<and>
         sparse_map_bytes [] = [] \<and>
         crc32_iso3309 0 [] = 0 \<and>
         crc32_iso3309 (crc32_iso3309 0 []) (map of_char ''hello'') = 0x3610A686)"
proof -
  note h = wf_opened_file [of accept_all] mutex_new onwrite_opened_file [of accept_all]
    hello_example_emitted
  show ?thesis
    by (rule conjI [OF h(1) conjI [OF h(2) conjI [OF h(3) conjI [OF h(4)
          chunk_checksum_crc32 [OF h]]]]])
qed

text \<open>
  C4. A successful chunk emission advances the offset of the handle by the length of the
  payload plus the sum of the skip values of the sparse map. After a sequence of successful
  emissions the offset is the initial offset plus the sum of these contributions, in the
  64-bit arithmetic of the offset, and as natural numbers when the sum stays below
  \<open>2 ^ 64\<close>. A sparse write of 2 payload bytes with the map [(1024, 1), (0, 1)] on a
  fresh handle leaves the offset at 1026.
\<close>

lemma write_chunk_offset:
  assumes "wf_file file" and "\<not> mutex stream"
    and "xb_stream_write_chunk file buf sm stream ud = Some (rc, file', stream', ud')"
  shows "(rc = 0 \<or> rc = 1) \<and>
         offset file' = (if rc = 0 then offset file + of_nat (length buf) + sum_skips sm
                         else offset file)"
  using assms(3) unfolding xb_stream_write_chunk_unfold [OF assms(1,2)]
  by (auto simp add: Let_def split: prod.splits if_splits)

lemma emit_all_offset:
  assumes "wf_file file" and "\<not> mutex stream"
    and "emit_all file cs stream ud = Some (0, file', stream', ud')"
  shows "offset file' =
           offset file + sum_list (map (\<lambda>(buf, sm). of_nat (length buf) + sum_skips sm) cs)"
  using assms
proof (induction cs arbitrary: "file" stream ud)
  case Nil
  then show ?case by simp
next
  case (Cons c cs)
  obtain buf sm where c: "c = (buf, sm)" by (cases c)
  from Cons.prems(3) obtain rc f1 s1 u1 where
    w: "xb_stream_write_chunk file buf sm stream ud = Some (rc, f1, s1, u1)"
    by (auto simp add: c split: option.splits)
  from Cons.prems(3) w have rc: "rc = 0"
    and e: "emit_all f1 cs s1 u1 = Some (0, file', stream', ud')"
    by (auto simp add: c split: if_splits)
  from wf_file_write_chunk [OF Cons.prems(1,2) w] have wf1: "wf_file f1" and m1: "\<not> mutex s1"
    by simp_all
  from write_chunk_offset [OF Cons.prems(1,2) w] rc
  have o1: "offset f1 = offset file + of_nat (length buf) + sum_skips sm"
    by simp
  from Cons.IH [OF wf1 m1 e] show ?case
    by (simp add: c o1 add.assoc)
qed

lemma sum_skips_of_nat: "sum_skips sm = of_nat (sum_list (map (\<lambda>e. unat (skip e)) sm))"
  by (induction sm) (simp_all add: sum_skips_def)

lemma sum_advance_of_nat:
  "sum_list (map (\<lambda>(buf, sm). of_nat (length buf) + sum_skips sm) cs) =
   (of_nat (sum_list (map chunk_advance cs)) :: 64 word)"
  by (induction cs) (auto simp add: chunk_advance_def sum_skips_of_nat)

lemma unat_add_of_nat:
  "unat (a :: 64 word) + n < 2 ^ 64 \<Longrightarrow> unat (a + of_nat n) = unat a + n"
  by (simp add: unat_word_ariths unat_of_nat)

lemma sparse_example_written:
  "xb_stream_write_sparse_data (opened_file accept_all) (map of_char ''AB'')
     [\<lparr>skip = 1024, len = 1\<rparr>, \<lparr>skip = 0, len = 1\<rparr>] xb_stream_write_new [] =
   Some (0, (opened_file accept_all)
              \<lparr>sparse_map_buf := [0, 4, 0, 0, 1, 0, 0, 0, 0, 0, 0, 0, 1, 0, 0, 0],
               offset := 1026\<rparr>,
         xb_stream_write_new,
         [[88, 66, 83, 84, 67, 75, 48, 49, 0, 83, 5, 0, 0, 0, 97, 46, 116, 120, 116, 2, 0, 0, 0,
           2, 0, 0, 0, 0, 0, 0, 0, 0, 0, 0, 0, 0, 0, 0, 0, 169, 132, 240, 51],
          [0, 4, 0, 0, 1, 0, 0, 0, 0, 0, 0, 0, 1, 0, 0, 0], [65, 66]])"
proof -
  have "xb_stream_flush (opened_file accept_all) xb_stream_write_new [] =
        Some (0, opened_file accept_all, xb_stream_write_new, [])"
    by (simp add: xb_stream_flush_def opened_file_def)
  with sparse_example_emitted show ?thesis
    by (simp add: xb_stream_write_sparse_data_def)
qed

theorem offset_advances_by_chunk:
  assumes "wf_file file" and "\<not> mutex stream"
  shows "(xb_stream_write_chunk file buf sm stream ud = Some (0, file', stream', ud') \<longrightarrow>
            offset file' = offset file + of_nat (length buf) + sum_skips sm) \<and>
         (emit_all file cs stream ud = Some (0, file'', stream'', ud'') \<longrightarrow>
            offset file'' =
              offset file +
              sum_list (map (\<lambda>(buf, sm). of_nat (length buf) + sum_skips sm) cs) \<and>
            (unat (offset file) + sum_list (map chunk_advance cs) < 2 ^ 64 \<longrightarrow>
               unat (offset file'') = unat (offset file) + sum_list (map chunk_advance cs))) \<and>
         (\<exists>f t. xb_stream_write_sparse_data (opened_file accept_all) (map of_char ''AB'')
                   [\<lparr>skip = 1024, len = 1\<rparr>, \<lparr>skip = 0, len = 1\<rparr>] xb_stream_write_new [] =
                 Some (0, f, xb_stream_write_new, t) \<and> offset f = 1026)"
proof (intro conjI impI)
  assume "xb_stream_write_chunk file buf sm stream ud = Some (0, file', stream', ud')"
  from write_chunk_offset [OF assms this]
  show "offset file' = offset file + of_nat (length buf) + sum_skips sm"
    by simp
next
  assume "emit_all file cs stream ud = Some (0, file'', stream'', ud'')"
  from emit_all_offset [OF assms this]
  show "offset file'' =
          offset file + sum_list (map (\<lambda>(buf, sm). of_nat (length buf) + sum_skips sm) cs)" .
next
  assume e: "emit_all file cs stream ud = Some (0, file'', stream'', ud'')"
    and b: "unat (offset file) + sum_list (map chunk_advance cs) < 2 ^ 64"
  from emit_all_offset [OF assms e]
  have "offset file'' = offset file + of_nat (sum_list (map chunk_advance cs))"
    by (simp add: sum_advance_of_nat)
  with unat_add_of_nat [OF b]
  show "unat (offset file'') = unat (offset file) + sum_list (map chunk_advance cs)"
    by simp
next
  show "\<exists>f t. xb_stream_write_sparse_data (opened_file accept_all) (map of_char ''AB'')
                   [\<lparr>skip = 1024, len = 1\<rparr>, \<lparr>skip = 0, len = 1\<rparr>] xb_stream_write_new [] =
                 Some (0, f, xb_stream_write_new, t) \<and> offset f = 1026"
    using sparse_example_written by simp
qed

lemma two_chunks_emitted:
  "emit_all (opened_file accept_all) [(map of_char ''hello'' :: uchar list, []), (map of_char ''AB'', [\<lparr>skip = 1024, len = 1\<rparr>, \<lparr>skip = 0, len = 1\<rparr>])] xb_stream_write_new [] =
   Some (0, (opened_file accept_all)
              \<lparr>sparse_map_buf := [0, 4, 0, 0, 1, 0, 0, 0, 0, 0, 0, 0, 1, 0, 0, 0],
               offset := 1031\<rparr>, xb_stream_write_new,
         (data_chunk_writes (map of_char ''a.txt'') 0 (map of_char ''hello'') [] @
          data_chunk_writes (map of_char ''a.txt'') 5 (map of_char ''AB'')
            [\<lparr>skip = 1024, len = 1\<rparr>, \<lparr>skip = 0, len = 1\<rparr>]))"
proof -
  let ?f1 = "(opened_file accept_all)\<lparr>offset := 5\<rparr>"
  have wf1: "wf_file ?f1" and on1: "onwrite ?f1 = recording accept_all"
    by (simp_all add: wf_file_def opened_file_def XB_STREAM_MIN_CHUNK_SIZE_def)
  have a: "sparse_map_buf_after ?f1 [\<lparr>skip = 1024, len = 1\<rparr>, \<lparr>skip = 0, len = 1\<rparr>] =
           [0, 4, 0, 0, 1, 0, 0, 0, 0, 0, 0, 0, 1, 0, 0, 0]"
    by (simp add: sparse_map_buf_after_def my_realloc_def opened_file_def wire_eval)
  have b: "sum_skips [\<lparr>skip = 1024, len = 1\<rparr>, \<lparr>skip = 0, len = 1\<rparr>] = 1024"
    by (simp add: sum_skips_def)
  have p: "path ?f1 = map of_char ''a.txt''" and o: "offset ?f1 = 5"
    by (simp_all add: opened_file_def)
  have w2: "xb_stream_write_chunk ?f1 (map of_char ''AB'') [\<lparr>skip = 1024, len = 1\<rparr>, \<lparr>skip = 0, len = 1\<rparr>] xb_stream_write_new tr =
        Some (0, (opened_file accept_all)
              \<lparr>sparse_map_buf := [0, 4, 0, 0, 1, 0, 0, 0, 0, 0, 0, 0, 1, 0, 0, 0],
               offset := 1031\<rparr>, xb_stream_write_new,
              tr @ data_chunk_writes (map of_char ''a.txt'') 5 (map of_char ''AB'') [\<lparr>skip = 1024, len = 1\<rparr>, \<lparr>skip = 0, len = 1\<rparr>])" for tr
    unfolding xb_stream_write_chunk_accept_all [OF wf1 mutex_new on1] a b p o
    by (simp add: opened_file_def)
  show ?thesis
    using hello_example_emitted w2 hello_example_writes by simp
qed

theorem offset_advances_by_chunk_witness:
  "wf_file (opened_file accept_all) \<and> \<not> mutex xb_stream_write_new \<and>
   xb_stream_write_chunk (opened_file accept_all) (map of_char ''hello'') [] xb_stream_write_new [] =
   Some (0, (opened_file accept_all)\<lparr>offset := 5\<rparr>, xb_stream_write_new,
         [[88, 66, 83, 84, 67, 75, 48, 49, 0, 80, 5, 0, 0, 0, 97, 46, 116, 120, 116, 5, 0, 0, 0,
          0, 0, 0, 0, 0, 0, 0, 0, 0, 0, 0, 0, 134, 166, 16, 54], [],
         [104, 101, 108, 108, 111 :: uchar]]) \<and>
   offset ((opened_file accept_all)\<lparr>offset := 5\<rparr>) =
     offset (opened_file accept_all) + of_nat (length (map of_char ''hello'' :: uchar list)) + sum_skips [] \<and>
   emit_all (opened_file accept_all) [(map of_char ''hello'' :: uchar list, []), (map of_char ''AB'', [\<lparr>skip = 1024, len = 1\<rparr>, \<lparr>skip = 0, len = 1\<rparr>])] xb_stream_write_new [] =
   Some (0, (opened_file accept_all)
              \<lparr>sparse_map_buf := [0, 4, 0, 0, 1, 0, 0, 0, 0, 0, 0, 0, 1, 0, 0, 0],
               offset := 1031\<rparr>, xb_stream_write_new,
         (data_chunk_writes (map of_char ''a.txt'') 0 (map of_char ''hello'') [] @
          data_chunk_writes (map of_char ''a.txt'') 5 (map of_char ''AB'')
            [\<lparr>skip = 1024, len = 1\<rparr>, \<lparr>skip = 0, len = 1\<rparr>])) \<and>
   offset ((opened_file accept_all)
              \<lparr>sparse_map_buf := [0, 4, 0, 0, 1, 0, 0, 0, 0, 0, 0, 0, 1, 0, 0, 0],
               offset := 1031\<rparr>) =
     offset (opened_file accept_all) +
     sum_list (map (\<lambda>(buf, sm). of_nat (length buf) + sum_skips sm)
       [(map of_char ''hello'' :: uchar list, []), (map of_char ''AB'', [\<lparr>skip = 1024, len = 1\<rparr>, \<lparr>skip = 0, len = 1\<rparr>])]) \<and>
   unat (offset (opened_file accept_all)) + sum_list (map chunk_advance [(map of_char ''hello'' :: uchar list, []), (map of_char ''AB'', [\<lparr>skip = 1024, len = 1\<rparr>, \<lparr>skip = 0, len = 1\<rparr>])]) < 2 ^ 64 \<and>
   unat (offset ((opened_file accept_all)
              \<lparr>sparse_map_buf := [0, 4, 0, 0, 1, 0, 0, 0, 0, 0, 0, 0, 1, 0, 0, 0],
               offset := 1031\<rparr>)) =
     unat (offset (opened_file accept_all)) + sum_list (map chunk_advance [(map of_char ''hello'' :: uchar list, []), (map of_char ''AB'', [\<lparr>skip = 1024, len = 1\<rparr>, \<lparr>skip = 0, len = 1\<rparr>])]) \<and>
   offset ((opened_file accept_all)
              \<lparr>sparse_map_buf := [0, 4, 0, 0, 1, 0, 0, 0, 0, 0, 0, 0, 1, 0, 0, 0],
               offset := 1031\<rparr>) = 1031"
proof -
  note h = wf_opened_file [of accept_all] mutex_new
  note t = offset_advances_by_chunk [OF h]
  have b: "unat (offset (opened_file accept_all)) + sum_list (map chunk_advance [(map of_char ''hello'' :: uchar list, []), (map of_char ''AB'', [\<lparr>skip = 1024, len = 1\<rparr>, \<lparr>skip = 0, len = 1\<rparr>])]) < 2 ^ 64"
    by (simp add: opened_file_def chunk_advance_def)
  have l: "offset ((opened_file accept_all)
              \<lparr>sparse_map_buf := [0, 4, 0, 0, 1, 0, 0, 0, 0, 0, 0, 0, 1, 0, 0, 0],
               offset := 1031\<rparr>) = 1031"
    by simp
  show ?thesis
    apply (intro conjI)
            apply (rule h(1))
           apply (rule h(2))
          apply (rule hello_example_emitted)
         apply (rule t [THEN conjunct1, THEN mp, OF hello_example_emitted])
        apply (rule two_chunks_emitted)
       apply (rule t [THEN conjunct2, THEN conjunct1, THEN mp, OF two_chunks_emitted,
                      THEN conjunct1])
      apply (rule b)
     apply (rule t [THEN conjunct2, THEN conjunct1, THEN mp, OF two_chunks_emitted,
                    THEN conjunct2, THEN mp, OF b])
    apply (rule l)
    done
qed

text \<open>
  C5. A chunk emission on a free mutex always returns, with the mutex released. When one of
  its three sink calls (header, sparse map, payload) returns -1 no further sink call is
  made, the emission returns 1 and the offset of the handle is unchanged; the offset is
  advanced, and 0 returned, only when none of the three calls returned -1.
\<close>

theorem sink_failure_aborts_emission:
  assumes "wf_file file" and "\<not> mutex stream"
  shows "\<exists>rc file' stream' ud'.
           xb_stream_write_chunk file buf sm stream ud = Some (rc, file', stream', ud') \<and>
           \<not> mutex stream' \<and>
           (rc, offset file', ud') =
             (case onwrite file ud (data_chunk_writes (path file) (offset file) buf sm ! 0) of
                (r1, u1) \<Rightarrow>
                  if r1 = - 1 then (1, offset file, u1)
                  else
                    (case onwrite file u1
                            (data_chunk_writes (path file) (offset file) buf sm ! 1) of
                       (r2, u2) \<Rightarrow>
                         if r2 = - 1 then (1, offset file, u2)
                         else
                           (case onwrite file u2
                                   (data_chunk_writes (path file) (offset file) buf sm ! 2) of
                              (r3, u3) \<Rightarrow>
                                if r3 = - 1 then (1, offset file, u3)
                                else (0, offset file + of_nat (length buf) + sum_skips sm,
                                      u3))))"
  unfolding xb_stream_write_chunk_unfold [OF assms]
  by (auto simp add: Let_def assms(2) split: prod.splits)

lemma refused_example:
  "xb_stream_write_chunk (buffered_file refuse_payload_header) [1] [] xb_stream_write_new [] =
   Some (1, (buffered_file refuse_payload_header), xb_stream_write_new, [])"
  unfolding xb_stream_write_chunk_recording [OF wf_buffered_file mutex_new onwrite_buffered_file]
  by (simp add: data_chunk_writes_def data_chunk_header_def refuse_payload_header_def
      sparse_map_buf_after_def buffered_file_def opened_file_def)

theorem sink_failure_aborts_emission_witness:
  "wf_file (buffered_file refuse_payload_header) \<and> \<not> mutex xb_stream_write_new \<and>
   xb_stream_write_chunk (buffered_file refuse_payload_header) [1] [] xb_stream_write_new [] =
   Some (1, (buffered_file refuse_payload_header), xb_stream_write_new, []) \<and>
   (\<exists>rc file' stream' ud'.
           xb_stream_write_chunk (buffered_file refuse_payload_header) ([1] :: uchar list) [] xb_stream_write_new [] = Some (rc, file', stream', ud') \<and>
           \<not> mutex stream' \<and>
           (rc, offset file', ud') =
             (case onwrite (buffered_file refuse_payload_header) [] (data_chunk_writes (path (buffered_file refuse_payload_header)) (offset (buffered_file refuse_payload_header)) ([1] :: uchar list) [] ! 0) of
                (r1, u1) \<Rightarrow>
                  if r1 = - 1 then (1, offset (buffered_file refuse_payload_header), u1)
                  else
                    (case onwrite (buffered_file refuse_payload_header) u1
                            (data_chunk_writes (path (buffered_file refuse_payload_header)) (offset (buffered_file refuse_payload_header)) ([1] :: uchar list) [] ! 1) of
                       (r2, u2) \<Rightarrow>
                         if r2 = - 1 then (1, offset (buffered_file refuse_payload_header), u2)
                         else
                           (case onwrite (buffered_file refuse_payload_header) u2
                                   (data_chunk_writes (path (buffered_file refuse_payload_header)) (offset (buffered_file refuse_payload_header)) ([1] :: uchar list) [] ! 2) of
                              (r3, u3) \<Rightarrow>
                                if r3 = - 1 then (1, offset (buffered_file refuse_payload_header), u3)
                                else (0, offset (buffered_file refuse_payload_header) + of_nat (length ([1] :: uchar list)) + sum_skips [],
                                      u3)))))"
proof -
  note h = wf_buffered_file [of refuse_payload_header] mutex_new
  show ?thesis
    by (rule conjI [OF h(1) conjI [OF h(2) conjI [OF refused_example
          sink_failure_aborts_emission [OF h]]]])
qed

text \<open>
  C8. \<open>xb_stream_write_open\<close> returns no handle exactly when the length of the path
  exceeds \<open>FN_REFLEN\<close>, so a path of exactly \<open>FN_REFLEN\<close> bytes is accepted; the handle it
  returns holds a copy of the path (the bytes before the terminating NUL), the offset 0 and
  an empty coalescing buffer with \<open>XB_STREAM_MIN_CHUNK_SIZE\<close> = 10 MiB free bytes.
\<close>

theorem open_path_length:
  "(xb_stream_write_open FN_REFLEN my_write cpath cb = None) = (FN_REFLEN < strlen cpath) \<and>
   xb_stream_write_open (strlen cpath) my_write cpath cb \<noteq> None \<and>
   (case xb_stream_write_open FN_REFLEN my_write cpath cb of
      None \<Rightarrow> True
    | Some file \<Rightarrow>
        path file = take (strlen cpath) cpath \<and> path file = takeWhile (\<lambda>c. c \<noteq> 0) cpath \<and>
        path_len file = strlen cpath \<and> offset file = 0 \<and>
        chunk file = [] \<and> chunk_free file = XB_STREAM_MIN_CHUNK_SIZE \<and>
        chunk_free file = 10 * 1024 * 1024 \<and> wf_file file)"
  using takeWhile_eq_take [of "\<lambda>c. c \<noteq> 0" cpath]
  by (simp add: xb_stream_write_open_def Let_def strlen_def wf_file_def
      XB_STREAM_MIN_CHUNK_SIZE_def)

text \<open>
  C10. The header of every chunk the writer emits, a data chunk of type \<open>'P'\<close> or \<open>'S'\<close>
  as well as an EOF chunk, has the flags byte 0 at offset 8, so the bit
  \<open>XB_STREAM_FLAG_IGNORABLE\<close> is never set.
\<close>

lemma eof_example_emitted:
  "xb_stream_write_eof (opened_file accept_all) xb_stream_write_new [] =
   Some (0, xb_stream_write_new,
         [[88, 66, 83, 84, 67, 75, 48, 49, 0, 69, 5, 0, 0, 0, 97, 46, 116, 120, 116]])"
  unfolding xb_stream_write_eof_recording [OF wf_opened_file mutex_new onwrite_opened_file]
  by (simp add: accept_all_def opened_file_def eof_chunk_def le_bytes_4)

theorem flags_byte_zero:
  assumes "wf_file file" and "\<not> mutex stream" and "onwrite file = recording ret"
  shows "(xb_stream_write_chunk file buf sm stream tr = Some (0, file', stream', tr') \<longrightarrow>
            length tr' = length tr + 3 \<and> (tr' ! length tr) ! 8 = 0 \<and>
            (tr' ! length tr) ! 8 AND XB_STREAM_FLAG_IGNORABLE = 0 \<and>
            (tr' ! length tr) ! CHUNK_TYPE_OFFSET \<in> {of_char CHR ''P'', of_char CHR ''S''}) \<and>
         (xb_stream_write_eof file stream tr = Some (0, stream'', tr'') \<longrightarrow>
            length tr'' = length tr + 1 \<and> (tr'' ! length tr) ! 8 = 0 \<and>
            (tr'' ! length tr) ! 8 AND XB_STREAM_FLAG_IGNORABLE = 0 \<and>
            (tr'' ! length tr) ! CHUNK_TYPE_OFFSET = of_char CHR ''E'')"
proof -
  have a: "length tr' = length tr + 3 \<and> (tr' ! length tr) ! 8 = 0 \<and>
            (tr' ! length tr) ! 8 AND XB_STREAM_FLAG_IGNORABLE = 0 \<and>
            (tr' ! length tr) ! CHUNK_TYPE_OFFSET \<in> {of_char CHR ''P'', of_char CHR ''S''}"
    if w: "xb_stream_write_chunk file buf sm stream tr = Some (0, file', stream', tr')"
  proof -
    let ?ws = "data_chunk_writes (path file) (offset file) buf sm"
    obtain ok tr1 where o: "offer ret tr ?ws = (ok, tr1)"
      by (cases "offer ret tr ?ws")
    from w have "ok" and "tr1 = tr'"
      unfolding xb_stream_write_chunk_recording [OF assms(1-3)] o by (simp_all split: if_splits)
    with o have tr': "tr' = tr @ ?ws"
      by (simp add: offer_accepted)
    show ?thesis
      unfolding tr'
      by (simp add: data_chunk_writes_def data_chunk_header_def CHUNK_TYPE_OFFSET_def
          XB_STREAM_CHUNK_MAGIC_def nth_append)
  qed
  have b: "length tr'' = length tr + 1 \<and> (tr'' ! length tr) ! 8 = 0 \<and>
            (tr'' ! length tr) ! 8 AND XB_STREAM_FLAG_IGNORABLE = 0 \<and>
            (tr'' ! length tr) ! CHUNK_TYPE_OFFSET = of_char CHR ''E''"
    if w: "xb_stream_write_eof file stream tr = Some (0, stream'', tr'')"
  proof -
    let ?ws = "[eof_chunk (path file)]"
    obtain ok tr1 where o: "offer ret tr ?ws = (ok, tr1)"
      by (cases "offer ret tr ?ws")
    from w have "ok" and "tr1 = tr''"
      unfolding xb_stream_write_eof_recording [OF assms(1-3)] o by (simp_all split: if_splits)
    with o have tr'': "tr'' = tr @ ?ws"
      by (simp add: offer_accepted)
    show ?thesis
      unfolding tr''
      by (simp add: eof_chunk_def CHUNK_TYPE_OFFSET_def XB_STREAM_CHUNK_MAGIC_def nth_append)
  qed
  from a b show ?thesis by blast
qed

theorem flags_byte_zero_witness:
  "wf_file (opened_file accept_all) \<and> \<not> mutex xb_stream_write_new \<and>
   onwrite (opened_file accept_all) = recording accept_all \<and>
   xb_stream_write_chunk (opened_file accept_all) (map of_char ''AB'')
     [\<lparr>skip = 1024, len = 1\<rparr>, \<lparr>skip = 0, len = 1\<rparr>] xb_stream_write_new [] =
   Some (0, (opened_file accept_all)
              \<lparr>sparse_map_buf := [0, 4, 0, 0, 1, 0, 0, 0, 0, 0, 0, 0, 1, 0, 0, 0],
               offset := 1026\<rparr>,
         xb_stream_write_new,
         [[88, 66, 83, 84, 67, 75, 48, 49, 0, 83, 5, 0, 0, 0, 97, 46, 116, 120, 116, 2, 0, 0, 0,
          2, 0, 0, 0, 0, 0, 0, 0, 0, 0, 0, 0, 0, 0, 0, 0, 169, 132, 240, 51],
         [0, 4, 0, 0, 1, 0, 0, 0, 0, 0, 0, 0, 1, 0, 0, 0], [65, 66 :: uchar]]) \<and>
   xb_stream_write_eof (opened_file accept_all) xb_stream_write_new [] =
   Some (0, xb_stream_write_new, [[88, 66, 83, 84, 67, 75, 48, 49, 0, 69, 5, 0, 0, 0, 97, 46, 116, 120, 116 :: uchar]]) \<and>
   (length [[88, 66, 83, 84, 67, 75, 48, 49, 0, 83, 5, 0, 0, 0, 97, 46, 116, 120, 116, 2, 0, 0, 0,
          2, 0, 0, 0, 0, 0, 0, 0, 0, 0, 0, 0, 0, 0, 0, 0, 169, 132, 240, 51],
         [0, 4, 0, 0, 1, 0, 0, 0, 0, 0, 0, 0, 1, 0, 0, 0], [65, 66 :: uchar]] = length ([] :: uchar list list) + 3 \<and>
    ([[88, 66, 83, 84, 67, 75, 48, 49, 0, 83, 5, 0, 0, 0, 97, 46, 116, 120, 116, 2, 0, 0, 0,
          2, 0, 0, 0, 0, 0, 0, 0, 0, 0, 0, 0, 0, 0, 0, 0, 169, 132, 240, 51],
         [0, 4, 0, 0, 1, 0, 0, 0, 0, 0, 0, 0, 1, 0, 0, 0], [65, 66 :: uchar]] ! length ([] :: uchar list list)) ! 8 = 0 \<and>
    ([[88, 66, 83, 84, 67, 75, 48, 49, 0, 83, 5, 0, 0, 0, 97, 46, 116, 120, 116, 2, 0, 0, 0,
          2, 0, 0, 0, 0, 0, 0, 0, 0, 0, 0, 0, 0, 0, 0, 0, 169, 132, 240, 51],
         [0, 4, 0, 0, 1, 0, 0, 0, 0, 0, 0, 0, 1, 0, 0, 0], [65, 66 :: uchar]] ! length ([] :: uchar list list)) ! 8 AND XB_STREAM_FLAG_IGNORABLE = 0 \<and>
    ([[88, 66, 83, 84, 67, 75, 48, 49, 0, 83, 5, 0, 0, 0, 97, 46, 116, 120, 116, 2, 0, 0, 0,
          2, 0, 0, 0, 0, 0, 0, 0, 0, 0, 0, 0, 0, 0, 0, 0, 169, 132, 240, 51],
         [0, 4, 0, 0, 1, 0, 0, 0, 0, 0, 0, 0, 1, 0, 0, 0], [65, 66 :: uchar]] ! length ([] :: uchar list list)) ! CHUNK_TYPE_OFFSET \<in>
      {of_char CHR ''P'', of_char CHR ''S''}) \<and>
   (length [[88, 66, 83, 84, 67, 75, 48, 49, 0, 69, 5, 0, 0, 0, 97, 46, 116, 120, 116 :: uchar]] = length ([] :: uchar list list) + 1 \<and>
    ([[88, 66, 83, 84, 67, 75, 48, 49, 0, 69, 5, 0, 0, 0, 97, 46, 116, 120, 116 :: uchar]] ! length ([] :: uchar list list)) ! 8 = 0 \<and>
    ([[88, 66, 83, 84, 67, 75, 48, 49, 0, 69, 5, 0, 0, 0, 97, 46, 116, 120, 116 :: uchar]] ! length ([] :: uchar list list)) ! 8 AND XB_STREAM_FLAG_IGNORABLE = 0 \<and>
    ([[88, 66, 83, 84, 67, 75, 48, 49, 0, 69, 5, 0, 0, 0, 97, 46, 116, 120, 116 :: uchar]] ! length ([] :: uchar list list)) ! CHUNK_TYPE_OFFSET = of_char CHR ''E'')"
proof -
  note h = wf_opened_file [of accept_all] mutex_new onwrite_opened_file [of accept_all]
  note t = flags_byte_zero [OF h]
  show ?thesis
    by (rule conjI [OF h(1) conjI [OF h(2) conjI [OF h(3) conjI [OF sparse_example_emitted
          conjI [OF eof_example_emitted
            conjI [OF t [THEN conjunct1, THEN mp, OF sparse_example_emitted]
                      t [THEN conjunct2, THEN mp, OF eof_example_emitted]]]]]]])
qed

end
